theory Spec2Isabelle
  imports Main
begin

section \<open>Go values the program handles\<close>

text \<open>
  The program is \<^verbatim>\<open>cmd/gpt/main.go\<close>: a terminal chat client made of an event loop
  (\<^verbatim>\<open>Update\<close>) and one background goroutine (\<^verbatim>\<open>createChatCompletion\<close>) that
  talk over two unbuffered channels.

  A Go \<^verbatim>\<open>error\<close> is either \<^verbatim>\<open>io.EOF\<close>, an error wrapping another one, or any
  other error. \<^verbatim>\<open>errors.Is(err, io.EOF)\<close> follows the chain of wrapped errors; on
  \<^verbatim>\<open>nil\<close> it is false.
\<close>

datatype go_error = io_EOF | Wrapped string go_error | OtherError string

fun unwraps_to_EOF :: "go_error \<Rightarrow> bool" where
  "unwraps_to_EOF io_EOF = True"
| "unwraps_to_EOF (Wrapped _ e) = unwraps_to_EOF e"
| "unwraps_to_EOF (OtherError _) = False"

fun errors_Is_EOF :: "go_error option \<Rightarrow> bool" where
  "errors_Is_EOF None = False"
| "errors_Is_EOF (Some e) = unwraps_to_EOF e"

text \<open>\<^verbatim>\<open>strings.Join(elems, sep)\<close>.\<close>

fun strings_Join :: "string list \<Rightarrow> string \<Rightarrow> string" where
  "strings_Join [] sep = []"
| "strings_Join [x] sep = x"
| "strings_Join (x # y # ys) sep = x @ sep @ strings_Join (y # ys) sep"

text \<open>
  \<^verbatim>\<open>path.Base\<close>: the empty path gives ".", trailing slashes are stripped, the last
  element is kept, and a path of slashes only gives "/".
\<close>

definition path_Base :: "string \<Rightarrow> string" where
  "path_Base p =
     (if p = [] then ''.''
      else let stripped = rev (dropWhile (\<lambda>c. c = CHR ''/'') (rev p));
               elem = rev (takeWhile (\<lambda>c. c \<noteq> CHR ''/'') (rev stripped))
           in if elem = [] then ''/'' else elem)"

text \<open>A channel of strings is known by its identity; \<^verbatim>\<open>make(chan string)\<close> gives a new one.\<close>

datatype chan = Chan nat

section \<open>Messages, commands and effects\<close>

text \<open>
  The messages \<^verbatim>\<open>Update\<close> distinguishes in its type switch: a key press (of which only
  the key type is inspected), a window resize, a \<^verbatim>\<open>deltaMsg\<close>, an \<^verbatim>\<open>errMsg\<close>, and
  any other message of the toolkit (cursor blink, mouse, ...), which falls through the
  switch.
\<close>

datatype key_type = KeyCtrlC | KeyEsc | KeyEnter | KeyRunes | KeyOther nat

datatype msg =
    KeyMsg key_type string
  | WindowSizeMsg int int
  | DeltaMsg string
  | ErrMsg go_error
  | OtherMsg nat

text \<open>
  A \<^verbatim>\<open>tea.Cmd\<close> is a closure the runtime runs in a goroutine of its own. The program
  builds four kinds: \<^verbatim>\<open>nil\<close>, \<^verbatim>\<open>tea.Quit\<close>, the closure of \<^verbatim>\<open>waitForDelta\<close>
  (a receive on the given channel), the closure of \<^verbatim>\<open>createChatCompletion\<close> (the
  request loop on the given input and fragment channels), and \<^verbatim>\<open>tea.Batch\<close> of
  a list. Commands returned by the widgets are opaque values of type \<open>'c\<close>.
\<close>

datatype 'c cmd =
    Nil
  | Quit
  | DeltaWait chan
  | CompletionLoop chan chan
  | Widget 'c
  | Batch "'c cmd list"

text \<open>
  What a call of \<^verbatim>\<open>Update\<close> does besides returning: bytes written to standard output,
  and a (blocking) send of a string on a channel.
\<close>

datatype effect = Stdout string | ChanSend chan string

definition fmt_Println :: "string \<Rightarrow> effect" where
  "fmt_Println s = Stdout (s @ [CHR 0x0A])"

datatype fault = IndexOutOfRange

section \<open>The widgets and the model\<close>

text \<open>
  The text area, the viewport and the style renderer belong to external libraries.
  Their states are opaque (\<open>'ta\<close>, \<open>'vp\<close>) and the operations the program calls on them
  are parameters: \<open>Render\<close> is
  \<^verbatim>\<open>lipgloss.NewStyle().Foreground(lipgloss.Color("5")).Render\<close>, \<open>ta_New\<close> is the text
  area as \<^verbatim>\<open>initialModel\<close> configures it (placeholder, focus, prompt, limit of 280
  characters, width 300, height 3, no line numbers, newline key disabled), \<open>vp_New\<close> is
  \<^verbatim>\<open>viewport.New(100, 5)\<close> with the welcome text set.
\<close>

record ('ta, 'vp, 'c) toolkit =
  Render :: "string \<Rightarrow> string"
  ta_New :: "'ta"
  ta_Blink :: "'c"
  ta_Value :: "'ta \<Rightarrow> string"
  ta_Reset :: "'ta \<Rightarrow> 'ta"
  ta_SetWidth :: "int \<Rightarrow> 'ta \<Rightarrow> 'ta"
  ta_Update :: "msg \<Rightarrow> 'ta \<Rightarrow> 'ta \<times> 'c option"
  vp_New :: "'vp"
  vp_SetContent :: "string \<Rightarrow> 'vp \<Rightarrow> 'vp"
  vp_GotoBottom :: "'vp \<Rightarrow> 'vp"
  vp_Update :: "msg \<Rightarrow> 'vp \<Rightarrow> 'vp \<times> 'c option"

text \<open>
  The struct \<^verbatim>\<open>model\<close>. The field \<^verbatim>\<open>client\<close> is a pointer into the API library; what
  the client answers is supplied to the request loop below as its stimuli.
\<close>

record ('ta, 'vp) model =
  goos :: string
  shell :: string
  width :: int
  height :: int
  viewport :: 'vp
  textarea :: 'ta
  err :: "go_error option"
  inputMessage :: chan
  deltaMessage :: chan
  messages :: "string list"

text \<open>
  \<^verbatim>\<open>initialModel\<close>, given the value of the environment variable \<^verbatim>\<open>SHELL\<close> and
  \<^verbatim>\<open>runtime.GOOS\<close>. The two fields \<^verbatim>\<open>width\<close> and \<^verbatim>\<open>height\<close> are not set and keep
  Go's zero value.
\<close>

definition initialModel :: "('ta, 'vp, 'c) toolkit \<Rightarrow> string \<Rightarrow> string \<Rightarrow> ('ta, 'vp) model" where
  "initialModel tk env_SHELL runtime_GOOS =
     \<lparr> goos = runtime_GOOS,
       shell = (if env_SHELL = [] then ''sh'' else path_Base env_SHELL),
       width = 0,
       height = 0,
       viewport = vp_New tk,
       textarea = ta_New tk,
       err = None,
       inputMessage = Chan 0,
       deltaMessage = Chan 1,
       messages = [] \<rparr>"

definition waitForDelta :: "chan \<Rightarrow> 'c cmd" where
  "waitForDelta ch = DeltaWait ch"

definition createChatCompletion :: "('ta, 'vp) model \<Rightarrow> 'c cmd" where
  "createChatCompletion m = CompletionLoop (inputMessage m) (deltaMessage m)"

definition Init :: "('ta, 'vp, 'c) toolkit \<Rightarrow> ('ta, 'vp) model \<Rightarrow> 'c cmd" where
  "Init tk m = Batch [Widget (ta_Blink tk), createChatCompletion m, waitForDelta (deltaMessage m)]"

section \<open>The event handler\<close>

definition widget_cmd :: "'c option \<Rightarrow> 'c cmd" where
  "widget_cmd c = (case c of None \<Rightarrow> Nil | Some x \<Rightarrow> Widget x)"

text \<open>
  The tail of \<^verbatim>\<open>Update\<close> (lines 155 to 159): both widgets see the message, and their
  commands are batched after the ones collected so far.
\<close>

definition delegate ::
  "('ta, 'vp, 'c) toolkit \<Rightarrow> ('ta, 'vp) model \<Rightarrow> msg \<Rightarrow> 'c cmd list \<Rightarrow> effect list
     \<Rightarrow> fault + (('ta, 'vp) model \<times> 'c cmd \<times> effect list)" where
  "delegate tk m e cmds effs =
     (let (ta, tiCmd) = ta_Update tk e (textarea m);
          (vp, vpCmd) = vp_Update tk e (viewport m)
      in Inr (m\<lparr>textarea := ta, viewport := vp\<rparr>,
              Batch (cmds @ [widget_cmd tiCmd, widget_cmd vpCmd]),
              effs))"

text \<open>The two statements of the Enter branch that grow the transcript (lines 130, 131).\<close>

definition append_exchange ::
  "('ta, 'vp, 'c) toolkit \<Rightarrow> string \<Rightarrow> string list \<Rightarrow> string list" where
  "append_exchange tk message ms =
     (ms @ [Render tk ''You: '' @ message]) @ [Render tk ''System: '']"

text \<open>
  The statement of the fragment branch that extends the last line (line 146). The index
  \<^verbatim>\<open>len(m.messages)-1\<close> is \<open>-1\<close> on an empty slice, where Go panics.
\<close>

definition extend_last :: "string \<Rightarrow> string list \<Rightarrow> fault + string list" where
  "extend_last d ms =
     (if ms = [] then Inl IndexOutOfRange
      else Inr (ms[length ms - 1 := ms ! (length ms - 1) @ d]))"

definition Update ::
  "('ta, 'vp, 'c) toolkit \<Rightarrow> ('ta, 'vp) model \<Rightarrow> msg
     \<Rightarrow> fault + (('ta, 'vp) model \<times> 'c cmd \<times> effect list)" where
  "Update tk m e =
     (case e of
        KeyMsg t _ \<Rightarrow>
          (if t = KeyCtrlC \<or> t = KeyEsc then
             Inr (m, Quit, [fmt_Println (ta_Value tk (textarea m))])
           else if t = KeyEnter then
             (let message = ta_Value tk (textarea m);
                  m1 = m\<lparr>messages := append_exchange tk message (messages m)\<rparr>;
                  m2 = m1\<lparr>viewport := vp_SetContent tk (strings_Join (messages m1) [CHR 0x0A]) (viewport m1)\<rparr>;
                  m3 = m2\<lparr>textarea := ta_Reset tk (textarea m2)\<rparr>;
                  m4 = m3\<lparr>viewport := vp_GotoBottom tk (viewport m3)\<rparr>
              in delegate tk m4 e [] [ChanSend (inputMessage m4) message])
           else delegate tk m e [] [])
      | WindowSizeMsg w h \<Rightarrow>
          (let m1 = m\<lparr>width := w, height := h\<rparr>;
               m2 = m1\<lparr>textarea := ta_SetWidth tk (width m1) (textarea m1)\<rparr>
           in delegate tk m2 e [] [])
      | DeltaMsg d \<Rightarrow>
          (case extend_last d (messages m) of
             Inl f \<Rightarrow> Inl f
           | Inr ms \<Rightarrow>
               (let m1 = m\<lparr>messages := ms\<rparr>;
                    m2 = m1\<lparr>viewport := vp_SetContent tk (strings_Join (messages m1) [CHR 0x0A]) (viewport m1)\<rparr>;
                    m3 = m2\<lparr>viewport := vp_GotoBottom tk (viewport m2)\<rparr>
                in delegate tk m3 e [waitForDelta (deltaMessage m3)] []))
      | ErrMsg x \<Rightarrow> Inr (m\<lparr>err := Some x\<rparr>, Nil, [])
      | OtherMsg _ \<Rightarrow> delegate tk m e [] [])"

section \<open>Sequences of events\<close>

text \<open>
  The runtime calls \<^verbatim>\<open>Update\<close> once for each message it dispatches and threads the
  model through; \<open>run\<close> does this for a list of messages, in order, and collects the
  effects. A panic of \<^verbatim>\<open>Update\<close> ends the run.
\<close>

fun run ::
  "('ta, 'vp, 'c) toolkit \<Rightarrow> ('ta, 'vp) model \<Rightarrow> msg list
     \<Rightarrow> fault + (('ta, 'vp) model \<times> effect list)" where
  "run tk m [] = Inr (m, [])"
| "run tk m (e # es) =
     (case Update tk m e of
        Inl f \<Rightarrow> Inl f
      | Inr (m', c, out) \<Rightarrow>
          (case run tk m' es of
             Inl f \<Rightarrow> Inl f
           | Inr (m'', out') \<Rightarrow> Inr (m'', out @ out')))"

definition transcript_of ::
  "('ta, 'vp, 'c) toolkit \<Rightarrow> ('ta, 'vp) model \<Rightarrow> msg list \<Rightarrow> fault + string list" where
  "transcript_of tk m es =
     (case run tk m es of Inl f \<Rightarrow> Inl f | Inr (m', out) \<Rightarrow> Inr (messages m'))"


fun sends :: "effect list \<Rightarrow> (chan \<times> string) list" where
  "sends [] = []"
| "sends (ChanSend ch v # xs) = (ch, v) # sends xs"
| "sends (Stdout _ # xs) = sends xs"

fun deltas :: "msg list \<Rightarrow> string list" where
  "deltas [] = []"
| "deltas (DeltaMsg d # es) = d # deltas es"
| "deltas (_ # es) = deltas es"

fun is_DeltaMsg :: "msg \<Rightarrow> bool" where
  "is_DeltaMsg (DeltaMsg _) = True"
| "is_DeltaMsg _ = False"

fun is_Enter :: "msg \<Rightarrow> bool" where
  "is_Enter (KeyMsg t _) = (t = KeyEnter)"
| "is_Enter _ = False"

fun is_Quit_key :: "msg \<Rightarrow> bool" where
  "is_Quit_key (KeyMsg t _) = (t = KeyCtrlC \<or> t = KeyEsc)"
| "is_Quit_key _ = False"

text \<open>What a command holds: the channels of its fragment waits, its request loops, a quit.\<close>

fun collect_waits :: "'c cmd \<Rightarrow> chan list" where
  "collect_waits (DeltaWait ch) = [ch]"
| "collect_waits (Batch cs) = concat (map collect_waits cs)"
| "collect_waits _ = []"

fun collect_loops :: "'c cmd \<Rightarrow> (chan \<times> chan) list" where
  "collect_loops (CompletionLoop i d) = [(i, d)]"
| "collect_loops (Batch cs) = concat (map collect_loops cs)"
| "collect_loops _ = []"

fun has_Quit :: "'c cmd \<Rightarrow> bool" where
  "has_Quit Quit = True"
| "has_Quit (Batch cs) = list_ex has_Quit cs"
| "has_Quit _ = False"


section \<open>A plain toolkit\<close>

text \<open>
  The smallest widgets that meet the interface, for evaluating the program on concrete
  inputs: a text area that is its value and its width, typed runes are appended; a
  viewport that is its content and whether it shows the bottom; a renderer that adds no
  escape sequences, as the style library does on an output without colour support.
\<close>

definition plain_toolkit :: "(string \<times> int, string \<times> bool, unit) toolkit" where
  "plain_toolkit =
     \<lparr> Render = (\<lambda>s. s),
       ta_New = ([], 300),
       ta_Blink = (),
       ta_Value = fst,
       ta_Reset = (\<lambda>ta. ([], snd ta)),
       ta_SetWidth = (\<lambda>w ta. (fst ta, w)),
       ta_Update = (\<lambda>e ta. case e of
                      KeyMsg t r \<Rightarrow> if t = KeyRunes then ((fst ta @ r, snd ta), None) else (ta, None)
                    | _ \<Rightarrow> (ta, None)),
       vp_New = (''Welcome to the chat room!'' @ [CHR 0x0A] @ ''Type a message and press Enter to send.'', False),
       vp_SetContent = (\<lambda>c vp. (c, snd vp)),
       vp_GotoBottom = (\<lambda>vp. (fst vp, True)),
       vp_Update = (\<lambda>e vp. (vp, None)) \<rparr>"

definition plain_model :: "(string \<times> int, string \<times> bool) model" where
  "plain_model = initialModel plain_toolkit ''/bin/bash'' ''linux''"

section \<open>The request loop\<close>

text \<open>
  The values exchanged with the completion API, as far as the program reads or writes
  them. \<open>GPT3Dot5Turbo\<close> and \<open>ChatMessageRoleUser\<close> are constants of the API library.
\<close>

datatype ChatCompletionMessage = ChatCompletionMessage (Role: string) (Content: string)

datatype ChatCompletionRequest =
  ChatCompletionRequest (Model: string) (Messages: "ChatCompletionMessage list")

datatype stream_choice = StreamChoice (DeltaContent: string)

datatype stream_response = StreamResponse (Choices: "stream_choice list")

definition GPT3Dot5Turbo :: string where
  "GPT3Dot5Turbo = ''gpt-3.5-turbo''"

definition ChatMessageRoleUser :: string where
  "ChatMessageRoleUser = ''user''"

text \<open>
  The closure of \<^verbatim>\<open>createChatCompletion\<close> is a goroutine that stops at four places,
  each waiting for something from outside. Its state is the place where it waits, or how
  it ended:
  \<^item> \<open>AwaitInput\<close>: line 179, receiving from \<^verbatim>\<open>m.inputMessage\<close>;
  \<^item> \<open>CreateStream req\<close>: line 183, inside \<^verbatim>\<open>CreateChatCompletionStream\<close>;
  \<^item> \<open>Recv\<close>: line 190, inside \<^verbatim>\<open>stream.Recv\<close>;
  \<^item> \<open>SendDelta c\<close>: line 199, sending \<open>c\<close> on \<^verbatim>\<open>m.deltaMessage\<close>;
  \<^item> \<open>Returned e\<close>: lines 185 and 196, the closure has returned \<^verbatim>\<open>errMsg(e)\<close>;
  \<^item> \<open>Panicked\<close>: line 199, \<^verbatim>\<open>response.Choices[0]\<close> on a response without choices.

  The deferred \<^verbatim>\<open>stream.Close()\<close> runs only when the closure returns and has no part in
  what follows.
\<close>

datatype requester =
    AwaitInput
  | CreateStream ChatCompletionRequest
  | Recv
  | SendDelta string
  | Returned go_error
  | Panicked

text \<open>
  What lets the goroutine go on: a value received from the input channel, the result of
  opening the stream (an error or none), the result of one \<^verbatim>\<open>Recv\<close> (a response and an
  error or none), and a receiver taking the value offered on the fragment channel.
\<close>

datatype stimulus =
    Input string
  | Opened "go_error option"
  | Received stream_response "go_error option"
  | Taken

text \<open>What the goroutine gives out: a request, a fragment, the message it returns.\<close>

datatype emission = Request ChatCompletionRequest | Fragment string | Event msg

fun requester_step :: "requester \<Rightarrow> stimulus \<Rightarrow> (requester \<times> emission list) option" where
  "requester_step AwaitInput (Input v) =
     (let req = ChatCompletionRequest GPT3Dot5Turbo [ChatCompletionMessage ChatMessageRoleUser v]
      in Some (CreateStream req, [Request req]))"
| "requester_step (CreateStream req) (Opened x) =
     (case x of
        Some e \<Rightarrow> Some (Returned e, [Event (ErrMsg e)])
      | None \<Rightarrow> Some (Recv, []))"
| "requester_step Recv (Received response x) =
     (if errors_Is_EOF x then Some (AwaitInput, [])
      else case x of
        Some e \<Rightarrow> Some (Returned e, [Event (ErrMsg e)])
      | None \<Rightarrow>
          (case Choices response of
             [] \<Rightarrow> Some (Panicked, [])
           | c # _ \<Rightarrow> Some (SendDelta (DeltaContent c), [])))"
| "requester_step (SendDelta c) Taken = Some (Recv, [Fragment c])"
| "requester_step _ _ = None"

fun requester_run :: "requester \<Rightarrow> stimulus list \<Rightarrow> (requester \<times> emission list) option" where
  "requester_run r [] = Some (r, [])"
| "requester_run r (x # xs) =
     (case requester_step r x of
        None \<Rightarrow> None
      | Some (r', out) \<Rightarrow>
          (case requester_run r' xs of
             None \<Rightarrow> None
           | Some (r'', out') \<Rightarrow> Some (r'', out @ out')))"

text \<open>One answer of the stream that carries a fragment: no error, the fragment first.\<close>

definition chunk :: "string \<times> stream_choice list \<Rightarrow> stimulus" where
  "chunk fc = Received (StreamResponse (StreamChoice (fst fc) # snd fc)) None"

definition streamed :: "(string \<times> stream_choice list) list \<Rightarrow> stimulus list" where
  "streamed fcs = concat (map (\<lambda>fc. [chunk fc, Taken]) fcs)"

fun events :: "emission list \<Rightarrow> msg list" where
  "events [] = []"
| "events (Event e # xs) = e # events xs"
| "events (_ # xs) = events xs"

fun fragments :: "emission list \<Rightarrow> string list" where
  "fragments [] = []"
| "fragments (Fragment c # xs) = c # fragments xs"
| "fragments (_ # xs) = fragments xs"

section \<open>The two goroutines together\<close>

text \<open>
  The event loop is idle between two calls of \<^verbatim>\<open>Update\<close>, or inside the Enter branch at
  line 136, offering a value on a channel (with the model and command \<^verbatim>\<open>Update\<close> returns
  once the send is through), or it has panicked, or it has stopped after a quit.
\<close>

datatype ('ta, 'vp, 'c) loop =
    Idle
  | Blocked chan string "('ta, 'vp) model" "'c cmd"
  | Crashed fault
  | Stopped

text \<open>
  The whole program: the loop and its model, the request goroutine with the two channels
  its closure captured, the goroutines of \<^verbatim>\<open>waitForDelta\<close> that wait on a channel, the
  messages finished commands have returned and the loop has not dispatched yet, and
  whether \<^verbatim>\<open>tea.Quit\<close> has been returned.
\<close>

record ('ta, 'vp, 'c) system =
  loop :: "('ta, 'vp, 'c) loop"
  mdl :: "('ta, 'vp) model"
  requester :: requester
  req_in :: chan
  req_out :: chan
  waiters :: "chan list"
  mailbox :: "msg list"
  quitting :: bool

definition start ::
  "('ta, 'vp, 'c) toolkit \<Rightarrow> string \<Rightarrow> string \<Rightarrow> ('ta, 'vp, 'c) system" where
  "start tk env_SHELL runtime_GOOS =
     (let m = initialModel tk env_SHELL runtime_GOOS;
          c = Init tk m
      in \<lparr> loop = Idle,
           mdl = m,
           requester = AwaitInput,
           req_in = fst (hd (collect_loops c)),
           req_out = snd (hd (collect_loops c)),
           waiters = collect_waits c,
           mailbox = [],
           quitting = False \<rparr>)"

text \<open>\<^verbatim>\<open>Update\<close> has returned: its model is the program's, its commands are started.\<close>

definition finish ::
  "('ta, 'vp, 'c) system \<Rightarrow> ('ta, 'vp) model \<Rightarrow> 'c cmd \<Rightarrow> ('ta, 'vp, 'c) system" where
  "finish s m' c =
     s\<lparr>loop := Idle, mdl := m', waiters := waiters s @ collect_waits c,
       quitting := (quitting s \<or> has_Quit c)\<rparr>"

text \<open>The loop calls \<^verbatim>\<open>Update\<close> on a message; a send inside it leaves the loop blocked.\<close>

definition dispatch ::
  "('ta, 'vp, 'c) toolkit \<Rightarrow> ('ta, 'vp, 'c) system \<Rightarrow> msg \<Rightarrow> ('ta, 'vp, 'c) system" where
  "dispatch tk s e =
     (case Update tk (mdl s) e of
        Inl f \<Rightarrow> s\<lparr>loop := Crashed f\<rparr>
      | Inr (m', c, out) \<Rightarrow>
          (case sends out of
             [] \<Rightarrow> finish s m' c
           | (ch, v) # _ \<Rightarrow> s\<lparr>loop := Blocked ch v m' c\<rparr>))"

definition alive :: "('ta, 'vp, 'c) system \<Rightarrow> bool" where
  "alive s = (requester s \<noteq> Panicked \<and> (case loop s of Crashed _ \<Rightarrow> False | Stopped \<Rightarrow> False | _ \<Rightarrow> True))"

text \<open>
  One move of the program:
  \<^item> \<open>external\<close>: the idle loop dispatches a message that did not come from a fragment
    wait (a key, a resize, a message of a widget); a \<^verbatim>\<open>deltaMsg\<close> is built at line 33
    only, by the closure of \<^verbatim>\<open>waitForDelta\<close>, so none comes from outside;
  \<^item> \<open>internal\<close>: the idle loop dispatches a message a finished command returned;
  \<^item> \<open>stop\<close>: the idle loop takes the quit and ends;
  \<^item> \<open>submit\<close>: the blocked send meets the request goroutine's receive on the same
    channel, and \<^verbatim>\<open>Update\<close> returns;
  \<^item> \<open>network\<close>: the API answers the open or the read the request goroutine waits in;
  \<^item> \<open>deliver\<close>: the request goroutine's send meets a fragment wait on the same
    channel, whose command returns the \<^verbatim>\<open>deltaMsg\<close>.
\<close>

inductive move ::
  "('ta, 'vp, 'c) toolkit \<Rightarrow> ('ta, 'vp, 'c) system \<Rightarrow> ('ta, 'vp, 'c) system \<Rightarrow> bool"
  for tk :: "('ta, 'vp, 'c) toolkit" where
  external:
    "loop s = Idle \<Longrightarrow> \<not> is_DeltaMsg e \<Longrightarrow> move tk s (dispatch tk s e)"
| internal:
    "loop s = Idle \<Longrightarrow> mailbox s = xs @ e # ys
     \<Longrightarrow> move tk s (dispatch tk (s\<lparr>mailbox := xs @ ys\<rparr>) e)"
| stop:
    "loop s = Idle \<Longrightarrow> quitting s \<Longrightarrow> move tk s (s\<lparr>loop := Stopped\<rparr>)"
| submit:
    "loop s = Blocked ch v m' c \<Longrightarrow> ch = req_in s
     \<Longrightarrow> requester_step (requester s) (Input v) = Some (r, out)
     \<Longrightarrow> move tk s ((finish s m' c)\<lparr>requester := r\<rparr>)"
| network:
    "st = Opened x \<or> st = Received response x
     \<Longrightarrow> requester_step (requester s) st = Some (r, out)
     \<Longrightarrow> move tk s (s\<lparr>requester := r, mailbox := mailbox s @ events out\<rparr>)"
| deliver:
    "waiters s = xs @ req_out s # ys
     \<Longrightarrow> requester_step (requester s) Taken = Some (r, out)
     \<Longrightarrow> move tk s (s\<lparr>requester := r, waiters := xs @ ys,
                       mailbox := mailbox s @ map DeltaMsg (fragments out)\<rparr>)"

definition sys_step ::
  "('ta, 'vp, 'c) toolkit \<Rightarrow> ('ta, 'vp, 'c) system \<Rightarrow> ('ta, 'vp, 'c) system \<Rightarrow> bool" where
  "sys_step tk s s' = (alive s \<and> move tk s s')"

definition reachable ::
  "('ta, 'vp, 'c) toolkit \<Rightarrow> ('ta, 'vp, 'c) system \<Rightarrow> ('ta, 'vp, 'c) system \<Rightarrow> bool" where
  "reachable tk s0 s = rtranclp (sys_step tk) s0 s"


text \<open>
  What holds of the program at every moment (shown below): the loop has not panicked; a
  blocked send is on the request loop's input channel and will return a model with a
  transcript that is not empty and a command without fragment waits; while the
  transcript is empty, the request loop is still waiting for its first input and no
  fragment is on its way to the loop; there is exactly one fragment wait or one
  undispatched fragment, the wait being on the request loop's fragment channel; and the
  model holds the two channels of the request loop.
\<close>

definition sound :: "('ta, 'vp, 'c) system \<Rightarrow> bool" where
  "sound s =
     ((case loop s of
         Crashed f \<Rightarrow> False
       | Blocked ch v m' c \<Rightarrow>
           ch = req_in s \<and> messages m' \<noteq> [] \<and> collect_waits c = []
           \<and> inputMessage m' = req_in s \<and> deltaMessage m' = req_out s
       | _ \<Rightarrow> True)
      \<and> (messages (mdl s) = [] \<longrightarrow> requester s = AwaitInput \<and> deltas (mailbox s) = [])
      \<and> length (waiters s) + length (deltas (mailbox s)) = 1
      \<and> set (waiters s) \<subseteq> {req_out s}
      \<and> inputMessage (mdl s) = req_in s
      \<and> deltaMessage (mdl s) = req_out s)"

section \<open>Running the program on a schedule\<close>

text \<open>
  The moves above, chosen one by one: which message the loop takes from outside or from
  the mailbox (by position), what the API answers, which fragment wait (by position)
  takes the value. \<open>perform\<close> computes the state after the chosen move, if the move is
  possible; \<open>exec\<close> performs a list of them while the program is alive.
\<close>

datatype choice =
    External msg
  | Internal nat
  | Stop
  | Submit
  | Network stimulus
  | Deliver nat

fun is_Idle :: "('ta, 'vp, 'c) loop \<Rightarrow> bool" where
  "is_Idle Idle = True"
| "is_Idle _ = False"

fun perform ::
  "('ta, 'vp, 'c) toolkit \<Rightarrow> ('ta, 'vp, 'c) system \<Rightarrow> choice \<Rightarrow> ('ta, 'vp, 'c) system option" where
  "perform tk s (External e) =
     (if is_Idle (loop s) \<and> \<not> is_DeltaMsg e then Some (dispatch tk s e) else None)"
| "perform tk s (Internal i) =
     (if is_Idle (loop s) \<and> i < length (mailbox s)
      then Some (dispatch tk (s\<lparr>mailbox := take i (mailbox s) @ drop (Suc i) (mailbox s)\<rparr>)
                   (mailbox s ! i))
      else None)"
| "perform tk s Stop =
     (if is_Idle (loop s) \<and> quitting s then Some (s\<lparr>loop := Stopped\<rparr>) else None)"
| "perform tk s Submit =
     (case loop s of
        Blocked ch v m' c \<Rightarrow>
          (if ch = req_in s then
             (case requester_step (requester s) (Input v) of
                Some (r, out) \<Rightarrow> Some ((finish s m' c)\<lparr>requester := r\<rparr>)
              | None \<Rightarrow> None)
           else None)
      | _ \<Rightarrow> None)"
| "perform tk s (Network st) =
     (case st of
        Input _ \<Rightarrow> None
      | Taken \<Rightarrow> None
      | _ \<Rightarrow>
          (case requester_step (requester s) st of
             Some (r, out) \<Rightarrow> Some (s\<lparr>requester := r, mailbox := mailbox s @ events out\<rparr>)
           | None \<Rightarrow> None))"
| "perform tk s (Deliver i) =
     (if i < length (waiters s) \<and> waiters s ! i = req_out s then
        (case requester_step (requester s) Taken of
           Some (r, out) \<Rightarrow>
             Some (s\<lparr>requester := r,
                     waiters := take i (waiters s) @ drop (Suc i) (waiters s),
                     mailbox := mailbox s @ map DeltaMsg (fragments out)\<rparr>)
         | None \<Rightarrow> None)
      else None)"

fun exec ::
  "('ta, 'vp, 'c) toolkit \<Rightarrow> ('ta, 'vp, 'c) system \<Rightarrow> choice list \<Rightarrow> ('ta, 'vp, 'c) system option" where
  "exec tk s [] = Some s"
| "exec tk s (a # as) =
     (if alive s then (case perform tk s a of None \<Rightarrow> None | Some s' \<Rightarrow> exec tk s' as)
      else None)"

definition plain_start :: "(string \<times> int, string \<times> bool, unit) system" where
  "plain_start = start plain_toolkit ''/bin/bash'' ''linux''"

section \<open>Facts about the handler\<close>

lemma run_append:
  "run tk m (xs @ ys) =
     (case run tk m xs of
        Inl f \<Rightarrow> Inl f
      | Inr (m', o1) \<Rightarrow>
          (case run tk m' ys of Inl f \<Rightarrow> Inl f | Inr (m'', o2) \<Rightarrow> Inr (m'', o1 @ o2)))"
  by (induction xs arbitrary: m) (auto split: sum.splits prod.splits)

lemma extend_last_snoc: "extend_last d (xs @ [l]) = Inr (xs @ [l @ d])"
  by (simp add: extend_last_def nth_append)

lemma extend_last_Inr: "ms \<noteq> [] \<Longrightarrow> extend_last d ms = Inr (butlast ms @ [last ms @ d])"
  using extend_last_snoc [of d "butlast ms" "last ms"] by simp

lemma collect_waits_widget [simp]: "collect_waits (widget_cmd x) = []"
  by (cases x) (simp_all add: widget_cmd_def)

lemma collect_loops_widget [simp]: "collect_loops (widget_cmd x) = []"
  by (cases x) (simp_all add: widget_cmd_def)

lemma has_Quit_widget [simp]: "\<not> has_Quit (widget_cmd x)"
  by (cases x) (simp_all add: widget_cmd_def)

lemma sends_append [simp]: "sends (xs @ ys) = sends xs @ sends ys"
  by (induction xs rule: sends.induct) simp_all

lemma Update_fault_iff:
  "(Update tk m e = Inl f) = (is_DeltaMsg e \<and> messages m = [])"
  by (cases e; cases f)
     (auto simp: Update_def Let_def delegate_def extend_last_def split: sum.splits prod.splits)

lemma Update_Enter:
  "\<exists>m' c. Update tk m (KeyMsg KeyEnter r) = Inr (m', c, [ChanSend (inputMessage m) (ta_Value tk (textarea m))])
     \<and> messages m' = messages m @ [Render tk ''You: '' @ ta_Value tk (textarea m), Render tk ''System: '']"
  by (simp add: Update_def Let_def delegate_def append_exchange_def split: prod.splits)

lemma Update_frame:
  assumes "Update tk m e = Inr (m', c, out)"
  shows "inputMessage m' = inputMessage m" "deltaMessage m' = deltaMessage m"
    "goos m' = goos m" "shell m' = shell m"
  using assms
  by (cases e; auto simp: Update_def Let_def delegate_def split: prod.splits sum.splits if_splits)+


lemma Update_sends:
  assumes "Update tk m e = Inr (m', c, out)"
  shows "sends out = (if is_Enter e then [(inputMessage m, ta_Value tk (textarea m))] else [])"
  using assms
  by (cases e; auto simp: Update_def Let_def delegate_def fmt_Println_def split: prod.splits sum.splits if_splits)

lemma Update_waits:
  assumes "Update tk m e = Inr (m', c, out)"
  shows "collect_waits c = (if is_DeltaMsg e then [deltaMessage m] else [])"
  using assms
  by (cases e; auto simp: Update_def Let_def delegate_def waitForDelta_def split: prod.splits sum.splits if_splits)

lemma Update_loops:
  assumes "Update tk m e = Inr (m', c, out)"
  shows "collect_loops c = []"
  using assms
  by (cases e; auto simp: Update_def Let_def delegate_def waitForDelta_def split: prod.splits sum.splits if_splits)

lemma Update_messages:
  assumes "Update tk m e = Inr (m', c, out)"
  shows "messages m' =
     (if is_Enter e then messages m @ [Render tk ''You: '' @ ta_Value tk (textarea m), Render tk ''System: '']
      else if is_DeltaMsg e then butlast (messages m) @ [last (messages m) @ hd (deltas [e])]
      else messages m)"
  using assms
proof (cases "is_DeltaMsg e")
  case True
  then obtain d where e: "e = DeltaMsg d" by (cases e) auto
  with assms have ne: "messages m \<noteq> []"
    by (auto simp: Update_def extend_last_def split: if_splits)
  from assms e show ?thesis
    by (auto simp: Update_def Let_def delegate_def extend_last_Inr [OF ne] split: prod.splits)
next
  case False
  with assms show ?thesis
    by (cases e; auto simp: Update_def Let_def delegate_def append_exchange_def
          split: prod.splits if_splits)
qed

lemma deltas_append [simp]: "deltas (xs @ ys) = deltas xs @ deltas ys"
  by (induction xs rule: deltas.induct) simp_all








section \<open>Facts about the request loop\<close>

lemma requester_run_append:
  "requester_run r (xs @ ys) =
     (case requester_run r xs of
        None \<Rightarrow> None
      | Some (r', o1) \<Rightarrow>
          (case requester_run r' ys of None \<Rightarrow> None | Some (r'', o2) \<Rightarrow> Some (r'', o1 @ o2)))"
  by (induction xs arbitrary: r) (auto split: option.splits)

lemma requester_run_streamed:
  "requester_run Recv (streamed fcs) = Some (Recv, map (\<lambda>fc. Fragment (fst fc)) fcs)"
  by (induction fcs) (simp_all add: streamed_def chunk_def)

lemma requester_run_tail:
  "requester_run Recv (streamed fcs @ rest) =
     (case requester_run Recv rest of
        None \<Rightarrow> None
      | Some (r, out) \<Rightarrow> Some (r, map (\<lambda>fc. Fragment (fst fc)) fcs @ out))"
  by (simp add: requester_run_append requester_run_streamed split: option.splits)

lemma move_Returned:
  assumes "move tk s s'" "requester s = Returned e"
  shows "requester s' = Returned e"
  using assms
  by (induction rule: move.induct)
     (auto simp: dispatch_def finish_def split: sum.splits prod.splits list.splits)

section \<open>Facts about the whole program\<close>

lemma requester_step_Input:
  assumes "requester_step r (Input v) = Some (r', out)"
  shows "r = AwaitInput"
    "r' = CreateStream (ChatCompletionRequest GPT3Dot5Turbo [ChatCompletionMessage ChatMessageRoleUser v])"
    "events out = []" "fragments out = []"
  using assms by (cases r; simp add: Let_def; fail | cases r; auto simp: Let_def)+

lemma requester_step_network:
  assumes "requester_step r st = Some (r', out)" "st = Opened x \<or> st = Received response x"
  shows "r \<noteq> AwaitInput" "deltas (events out) = []" "r' \<noteq> CreateStream q"
  using assms
  by (cases r; auto simp: Let_def split: option.splits list.splits if_splits)+

lemma requester_step_Taken:
  assumes "requester_step r Taken = Some (r', out)"
  shows "\<exists>c. r = SendDelta c \<and> out = [Fragment c]" "r' = Recv"
  using assms by (cases r; auto)+

lemma sound_start: "sound (start tk sh os)"
  by (simp add: sound_def start_def Let_def Init_def initialModel_def createChatCompletion_def
        waitForDelta_def)

lemma Update_nonempty:
  assumes "Update tk m e = Inr (m', c, out)" "messages m \<noteq> [] \<or> is_Enter e"
  shows "messages m' \<noteq> []"
  using Update_messages [OF assms(1)] assms(2) by (auto split: if_splits)

lemma sound_dispatch:
  assumes idle: "loop s = Idle"
    and empty: "messages (mdl s) = [] \<longrightarrow> requester s = AwaitInput \<and> deltas (mailbox s) = []"
    and count: "length (waiters s) + length (deltas (mailbox s)) + length (deltas [e]) = 1"
    and waits: "set (waiters s) \<subseteq> {req_out s}"
    and chans: "inputMessage (mdl s) = req_in s" "deltaMessage (mdl s) = req_out s"
    and safe: "is_DeltaMsg e \<longrightarrow> messages (mdl s) \<noteq> []"
  shows "sound (dispatch tk s e)"
proof -
  from safe obtain m' c out where u: "Update tk (mdl s) e = Inr (m', c, out)"
    using Update_fault_iff [of tk "mdl s" e] by (cases "Update tk (mdl s) e") auto
  note fr = Update_frame(1,2) [OF u] and se = Update_sends [OF u] and wa = Update_waits [OF u]
  have de: "length (deltas [e]) = (if is_DeltaMsg e then 1 else 0)" by (cases e) simp_all
  show ?thesis
  proof (cases "is_Enter e")
    case True
    then have nd: "\<not> is_DeltaMsg e" by (cases e) auto
    from True se have d: "dispatch tk s e =
        s\<lparr>loop := Blocked (inputMessage (mdl s)) (ta_Value tk (textarea (mdl s))) m' c\<rparr>"
      by (simp add: dispatch_def u)
    have "messages m' \<noteq> []" using Update_nonempty [OF u] True by simp
    then show ?thesis using d empty count waits chans fr wa nd de by (simp add: sound_def)
  next
    case False
    with se have d: "dispatch tk s e = finish s m' c" by (simp add: dispatch_def u)
    have ms: "messages (mdl s) \<noteq> [] \<longrightarrow> messages m' \<noteq> []"
      using Update_nonempty [OF u] by simp
    have ms2: "\<not> is_DeltaMsg e \<longrightarrow> messages m' = messages (mdl s)"
      using Update_messages [OF u] False by simp
    show ?thesis
      using d empty count waits chans fr wa de ms ms2 safe
      by (cases "is_DeltaMsg e") (auto simp: sound_def finish_def)
  qed
qed

lemma deltas_split: "deltas (xs @ e # ys) = deltas xs @ deltas [e] @ deltas ys"
  using deltas_append [of xs "e # ys"] deltas_append [of "[e]" ys] by simp

lemma sound_move:
  assumes "move tk s s'" "sound s"
  shows "sound s'"
  using assms
proof (induction rule: move.induct)
  case (external s e)
  then have "length (deltas [e]) = 0" by (cases e) simp_all
  with external show ?case by (intro sound_dispatch) (auto simp: sound_def)
next
  case (internal s xs e ys)
  let ?s = "s\<lparr>mailbox := xs @ ys\<rparr>"
  from internal have d: "deltas (mailbox s) = deltas xs @ deltas [e] @ deltas ys"
    by (simp only: deltas_split)
  have safe: "is_DeltaMsg e \<longrightarrow> messages (mdl s) \<noteq> []"
  proof
    assume "is_DeltaMsg e"
    then have "deltas [e] \<noteq> []" by (cases e) simp_all
    with d internal(3) show "messages (mdl s) \<noteq> []" by (auto simp: sound_def)
  qed
  show ?case
  proof (rule sound_dispatch)
    show "loop ?s = Idle" using internal by simp
    show "messages (mdl ?s) = [] \<longrightarrow> requester ?s = AwaitInput \<and> deltas (mailbox ?s) = []"
      using internal(3) d by (auto simp: sound_def)
    show "length (waiters ?s) + length (deltas (mailbox ?s)) + length (deltas [e]) = 1"
      using internal(3) d by (simp add: sound_def)
    show "set (waiters ?s) \<subseteq> {req_out ?s}" using internal(3) by (simp add: sound_def)
    show "inputMessage (mdl ?s) = req_in ?s" "deltaMessage (mdl ?s) = req_out ?s"
      using internal(3) by (simp_all add: sound_def)
    show "is_DeltaMsg e \<longrightarrow> messages (mdl ?s) \<noteq> []" using safe by simp
  qed
next
  case (stop s)
  then show ?case by (simp add: sound_def)
next
  case (submit s ch v m' c r out)
  from requester_step_Input [OF submit(3)] submit show ?case
    by (simp add: sound_def finish_def)
next
  case (network st x response s r out)
  from requester_step_network [OF network(2,1)] network(3) show ?case
    by (cases "loop s") (auto simp: sound_def)
next
  case (deliver s xs ys r out)
  from requester_step_Taken [OF deliver(2)] obtain c where
    c: "requester s = SendDelta c" "out = [Fragment c]" "r = Recv" by auto
  with deliver show ?case
    by (cases "loop s") (auto simp: sound_def)
qed

lemma sound_reachable:
  assumes "reachable tk (start tk sh os) s"
  shows "sound s"
  using assms unfolding reachable_def
  by (induction rule: rtranclp_induct) (auto simp: sound_start sys_step_def intro: sound_move)

text \<open>A schedule that can be performed is a sequence of moves.\<close>

lemma is_Idle_iff: "is_Idle l = (l = Idle)"
  by (cases l) simp_all

lemma perform_move:
  assumes "perform tk s a = Some s'"
  shows "move tk s s'"
proof (cases a)
  case (External e)
  with assms show ?thesis by (auto simp: is_Idle_iff split: if_splits intro: move.external)
next
  case (Internal i)
  with assms have i: "loop s = Idle" "i < length (mailbox s)"
    and s': "s' = dispatch tk (s\<lparr>mailbox := take i (mailbox s) @ drop (Suc i) (mailbox s)\<rparr>) (mailbox s ! i)"
    by (auto simp: is_Idle_iff split: if_splits)
  from i(2) have "mailbox s = take i (mailbox s) @ (mailbox s ! i) # drop (Suc i) (mailbox s)"
    by (simp add: id_take_nth_drop)
  from move.internal [OF i(1) this, of tk] s' show ?thesis by simp
next
  case Stop
  with assms show ?thesis by (auto simp: is_Idle_iff split: if_splits intro: move.stop)
next
  case Submit
  with assms show ?thesis
    by (auto split: loop.splits if_splits option.splits intro: move.submit)
next
  case (Network st)
  with assms show ?thesis
    by (cases st) (auto split: option.splits intro: move.network)
next
  case (Deliver i)
  with assms obtain r out where i: "i < length (waiters s)" "waiters s ! i = req_out s"
    and r: "requester_step (requester s) Taken = Some (r, out)"
    and s': "s' = s\<lparr>requester := r, waiters := take i (waiters s) @ drop (Suc i) (waiters s),
                     mailbox := mailbox s @ map DeltaMsg (fragments out)\<rparr>"
    by (auto split: if_splits option.splits)
  from i have "waiters s = take i (waiters s) @ req_out s # drop (Suc i) (waiters s)"
    using id_take_nth_drop [of i "waiters s"] by simp
  from move.deliver [OF this r, of tk] s' show ?thesis by simp
qed

lemma exec_reachable:
  assumes "exec tk s as = Some s'"
  shows "reachable tk s s'"
  using assms
proof (induction as arbitrary: s)
  case Nil
  then show ?case by (simp add: reachable_def)
next
  case (Cons a as)
  then obtain s1 where a: "alive s" "perform tk s a = Some s1" and r: "exec tk s1 as = Some s'"
    by (auto split: if_splits option.splits)
  from a have "sys_step tk s s1" by (simp add: sys_step_def perform_move)
  moreover from Cons.IH [OF r] have "rtranclp (sys_step tk) s1 s'" by (simp add: reachable_def)
  ultimately show ?case unfolding reachable_def by (rule converse_rtranclp_into_rtranclp)
qed

section \<open>Schedules of the plain program\<close>

text \<open>Some schedules of the program with the plain toolkit and the states they end in.\<close>

lemma schedule_first_submission:
  "exec plain_toolkit plain_start [External (KeyMsg KeyEnter [])] =
   Some \<lparr>loop = Blocked (Chan 0) []
                  \<lparr>goos = ''linux'', shell = ''bash'', width = 0, height = 0,
                    viewport = (''You: '' @ [CHR 0x0A] @ ''System: '', True),
                    textarea = ([], 300), err = None, inputMessage = Chan 0,
                    deltaMessage = Chan 1, messages = [''You: '', ''System: '']\<rparr>
                  (Batch [Nil, Nil]),
          mdl = \<lparr>goos = ''linux'', shell = ''bash'', width = 0, height = 0,
                  viewport = (''Welcome to the chat room!'' @ [CHR 0x0A] @ ''Type a message and press Enter to send.'', False),
                  textarea = ([], 300), err = None, inputMessage = Chan 0,
                  deltaMessage = Chan 1, messages = []\<rparr>,
          requester = AwaitInput, req_in = Chan 0, req_out = Chan 1, waiters = [Chan 1],
          mailbox = [], quitting = False\<rparr>"
  by code_simp

lemma schedule_first_exchange:
  "exec plain_toolkit plain_start [External (KeyMsg KeyEnter []), Submit] =
   Some \<lparr>loop = Idle,
          mdl = \<lparr>goos = ''linux'', shell = ''bash'', width = 0, height = 0,
                  viewport = (''You: '' @ [CHR 0x0A] @ ''System: '', True),
                  textarea = ([], 300), err = None, inputMessage = Chan 0,
                  deltaMessage = Chan 1, messages = [''You: '', ''System: '']\<rparr>,
          requester = CreateStream (ChatCompletionRequest ''gpt-3.5-turbo''
                                      [ChatCompletionMessage ''user'' []]),
          req_in = Chan 0, req_out = Chan 1, waiters = [Chan 1],
          mailbox = [], quitting = False\<rparr>"
  by code_simp

lemma schedule_fragment_in_flight:
  "exec plain_toolkit plain_start
     [External (KeyMsg KeyEnter []), Submit, Network (Opened None),
      Network (chunk (''Hel'', [])), Deliver 0] =
   Some \<lparr>loop = Idle,
          mdl = \<lparr>goos = ''linux'', shell = ''bash'', width = 0, height = 0,
                  viewport = (''You: '' @ [CHR 0x0A] @ ''System: '', True),
                  textarea = ([], 300), err = None, inputMessage = Chan 0,
                  deltaMessage = Chan 1, messages = [''You: '', ''System: '']\<rparr>,
          requester = Recv, req_in = Chan 0, req_out = Chan 1, waiters = [],
          mailbox = [DeltaMsg ''Hel''], quitting = False\<rparr>"
  by code_simp

lemma schedule_second_submission:
  "exec plain_toolkit plain_start
     [External (KeyMsg KeyEnter []), Submit, Network (Opened None),
      Network (chunk (''Hel'', [])), Deliver 0, External (KeyMsg KeyEnter [])] =
   Some \<lparr>loop = Blocked (Chan 0) []
                  \<lparr>goos = ''linux'', shell = ''bash'', width = 0, height = 0,
                    viewport = (''You: '' @ [CHR 0x0A] @ ''System: '' @ [CHR 0x0A] @ ''You: '' @ [CHR 0x0A] @ ''System: '', True),
                    textarea = ([], 300), err = None, inputMessage = Chan 0,
                    deltaMessage = Chan 1,
                    messages = [''You: '', ''System: '', ''You: '', ''System: '']\<rparr>
                  (Batch [Nil, Nil]),
          mdl = \<lparr>goos = ''linux'', shell = ''bash'', width = 0, height = 0,
                  viewport = (''You: '' @ [CHR 0x0A] @ ''System: '', True),
                  textarea = ([], 300), err = None, inputMessage = Chan 0,
                  deltaMessage = Chan 1, messages = [''You: '', ''System: '']\<rparr>,
          requester = Recv, req_in = Chan 0, req_out = Chan 1, waiters = [],
          mailbox = [DeltaMsg ''Hel''], quitting = False\<rparr>"
  by code_simp

lemma schedule_submission_while_streaming:
  "exec plain_toolkit plain_start
     [External (KeyMsg KeyEnter []), Submit, Network (Opened None),
      Network (chunk (''Hel'', [])), Deliver 0, External (KeyMsg KeyEnter []),
      Network (chunk (''lo'', []))] =
   Some \<lparr>loop = Blocked (Chan 0) []
                  \<lparr>goos = ''linux'', shell = ''bash'', width = 0, height = 0,
                    viewport = (''You: '' @ [CHR 0x0A] @ ''System: '' @ [CHR 0x0A] @ ''You: '' @ [CHR 0x0A] @ ''System: '', True),
                    textarea = ([], 300), err = None, inputMessage = Chan 0,
                    deltaMessage = Chan 1,
                    messages = [''You: '', ''System: '', ''You: '', ''System: '']\<rparr>
                  (Batch [Nil, Nil]),
          mdl = \<lparr>goos = ''linux'', shell = ''bash'', width = 0, height = 0,
                  viewport = (''You: '' @ [CHR 0x0A] @ ''System: '', True),
                  textarea = ([], 300), err = None, inputMessage = Chan 0,
                  deltaMessage = Chan 1, messages = [''You: '', ''System: '']\<rparr>,
          requester = SendDelta ''lo'', req_in = Chan 0, req_out = Chan 1, waiters = [],
          mailbox = [DeltaMsg ''Hel''], quitting = False\<rparr>"
  by code_simp

lemma schedule_failed_request:
  "exec plain_toolkit plain_start
     [External (KeyMsg KeyEnter []), Submit, Network (Opened (Some (OtherError ''401'')))] =
   Some \<lparr>loop = Idle,
          mdl = \<lparr>goos = ''linux'', shell = ''bash'', width = 0, height = 0,
                  viewport = (''You: '' @ [CHR 0x0A] @ ''System: '', True),
                  textarea = ([], 300), err = None, inputMessage = Chan 0,
                  deltaMessage = Chan 1, messages = [''You: '', ''System: '']\<rparr>,
          requester = Returned (OtherError ''401''), req_in = Chan 0, req_out = Chan 1,
          waiters = [Chan 1], mailbox = [ErrMsg (OtherError ''401'')], quitting = False\<rparr>"
  by code_simp

lemma schedule_error_dispatched:
  "exec plain_toolkit plain_start
     [External (KeyMsg KeyEnter []), Submit, Network (Opened (Some (OtherError ''401''))),
      Internal 0] =
   Some \<lparr>loop = Idle,
          mdl = \<lparr>goos = ''linux'', shell = ''bash'', width = 0, height = 0,
                  viewport = (''You: '' @ [CHR 0x0A] @ ''System: '', True),
                  textarea = ([], 300), err = Some (OtherError ''401''), inputMessage = Chan 0,
                  deltaMessage = Chan 1, messages = [''You: '', ''System: '']\<rparr>,
          requester = Returned (OtherError ''401''), req_in = Chan 0, req_out = Chan 1,
          waiters = [Chan 1], mailbox = [], quitting = False\<rparr>"
  by code_simp

lemma plain_reachable:
  "exec plain_toolkit plain_start as = Some s
   \<Longrightarrow> reachable plain_toolkit (start plain_toolkit ''/bin/bash'' ''linux'') s"
  using exec_reachable [of plain_toolkit plain_start as s] by (simp add: plain_start_def)

lemma exec_snoc:
  "exec tk s (as @ [a]) =
     (case exec tk s as of
        None \<Rightarrow> None
      | Some s1 \<Rightarrow> if alive s1 then perform tk s1 a else None)"
  by (induction as arbitrary: s) (auto split: option.splits)

lemma exec_last_step:
  assumes "exec tk s as = Some s1" "exec tk s (as @ [a]) = Some s2"
  shows "sys_step tk s1 s2"
  using assms by (auto simp: exec_snoc sys_step_def perform_move split: if_splits)

text \<open>
  A second submission while the first response is streaming can leave the program without
  any move: the loop is inside the send of the Enter branch, the request loop is inside
  the send of a fragment, and the only fragment wait has returned a message the blocked
  loop cannot take.
\<close>

lemma deadlock_reachable:
  "\<exists>s. exec plain_toolkit plain_start
          [External (KeyMsg KeyEnter []), Submit, Network (Opened None),
           Network (chunk (''Hel'', [])), Deliver 0, External (KeyMsg KeyEnter []),
           Network (chunk (''lo'', []))] = Some s
      \<and> alive s \<and> (\<forall>s'. \<not> sys_step plain_toolkit s s')"
proof -
  note e = schedule_submission_while_streaming
  let ?s = "the (exec plain_toolkit plain_start
          [External (KeyMsg KeyEnter []), Submit, Network (Opened None),
           Network (chunk (''Hel'', [])), Deliver 0, External (KeyMsg KeyEnter []),
           Network (chunk (''lo'', []))])"
  have "\<not> move plain_toolkit ?s s'" for s'
  proof
    assume "move plain_toolkit ?s s'"
    then show False
      by (cases rule: move.cases) (auto simp: e simp del: exec.simps)
  qed
  then show ?thesis by (simp add: e sys_step_def alive_def del: exec.simps)
qed

section \<open>The transcript after a sequence of submissions\<close>




section \<open>One cycle of the request loop\<close>

text \<open>
  Claim C2. The request loop waits at the input channel and nothing but a submitted text
  lets it go on. Given the text \<open>v\<close>, it issues one request whose only message has the
  user role and the content \<open>v\<close>; every answer of the stream that carries a fragment is
  sent on, unchanged and in order, on the fragment channel; on an error that is
  end-of-stream it is back at the input channel.
\<close>

theorem requester_cycle:
  assumes "unwraps_to_EOF e"
  shows "requester_run AwaitInput ([Input v, Opened None] @ streamed fcs @ [Received response (Some e)]) =
           Some (AwaitInput,
                 Request (ChatCompletionRequest GPT3Dot5Turbo
                            [ChatCompletionMessage ChatMessageRoleUser v])
                 # map (\<lambda>fc. Fragment (fst fc)) fcs)
         \<and> (\<forall>st. (requester_step AwaitInput st \<noteq> None) = (\<exists>x. st = Input x))"
proof -
  have "\<forall>st. (requester_step AwaitInput st \<noteq> None) = (\<exists>x. st = Input x)"
  proof
    fix st show "(requester_step AwaitInput st \<noteq> None) = (\<exists>x. st = Input x)"
      by (cases st) (simp_all add: Let_def)
  qed
  then show ?thesis using assms by (simp add: requester_run_tail Let_def)
qed

theorem requester_cycle_witness:
  "unwraps_to_EOF (Wrapped ''read'' io_EOF)
   \<and> requester_run AwaitInput
       ([Input ''hi'', Opened None] @ streamed [(''Hel'', []), (''lo'', [StreamChoice ''x'']), ('' world'', [])]
          @ [Received (StreamResponse []) (Some (Wrapped ''read'' io_EOF))]) =
       Some (AwaitInput,
             [Request (ChatCompletionRequest ''gpt-3.5-turbo'' [ChatCompletionMessage ''user'' ''hi'']),
              Fragment ''Hel'', Fragment ''lo'', Fragment '' world''])"
proof -
  have h: "unwraps_to_EOF (Wrapped ''read'' io_EOF)" by simp
  from requester_cycle [OF h, of "''hi''" "[(''Hel'', []), (''lo'', [StreamChoice ''x'']), ('' world'', [])]" "StreamResponse []"]
  show ?thesis using h by (simp add: GPT3Dot5Turbo_def ChatMessageRoleUser_def)
qed

section \<open>Errors\<close>

text \<open>
  Claim C3. When opening the stream fails, or a read fails with an error that is not
  end-of-stream, the request loop returns the error as an error message, once, after the
  fragments it had already sent on; from then on nothing lets it go on (no retry, no
  further receive on the input channel), \<^verbatim>\<open>Update\<close> never starts a request loop
  again, and no move of the program changes that.
\<close>

theorem requester_fatal:
  "requester_run AwaitInput [Input v, Opened (Some e)] =
     Some (Returned e,
           [Request (ChatCompletionRequest GPT3Dot5Turbo [ChatCompletionMessage ChatMessageRoleUser v]),
            Event (ErrMsg e)])
   \<and> (\<not> unwraps_to_EOF e \<longrightarrow>
        requester_run AwaitInput ([Input v, Opened None] @ streamed fcs @ [Received response (Some e)]) =
          Some (Returned e,
                Request (ChatCompletionRequest GPT3Dot5Turbo [ChatCompletionMessage ChatMessageRoleUser v])
                # map (\<lambda>fc. Fragment (fst fc)) fcs @ [Event (ErrMsg e)]))
   \<and> requester_step (Returned e) st = None
   \<and> (Update tk m ev = Inr (m', c, out) \<longrightarrow> collect_loops c = [])
   \<and> (sys_step tk s s' \<and> requester s = Returned e \<longrightarrow> requester s' = Returned e)"
  using Update_loops [of tk m ev m' c out] move_Returned [of tk s s' e]
  by (simp add: requester_run_tail Let_def sys_step_def)

theorem requester_fatal_witness:
  "requester_run AwaitInput
       ([Input ''hi'', Opened None] @ streamed [(''Hel'', [])]
          @ [Received (StreamResponse []) (Some (OtherError ''reset''))]) =
     Some (Returned (OtherError ''reset''),
           [Request (ChatCompletionRequest ''gpt-3.5-turbo'' [ChatCompletionMessage ''user'' ''hi'']),
            Fragment ''Hel'', Event (ErrMsg (OtherError ''reset''))])
   \<and> collect_loops (Nil :: unit cmd) = []
   \<and> (\<exists>s s'. exec plain_toolkit plain_start
          [External (KeyMsg KeyEnter []), Submit, Network (Opened (Some (OtherError ''401'')))] = Some s
        \<and> exec plain_toolkit plain_start
          ([External (KeyMsg KeyEnter []), Submit, Network (Opened (Some (OtherError ''401'')))]
           @ [Internal 0]) = Some s'
        \<and> requester s = Returned (OtherError ''401'')
        \<and> requester s' = Returned (OtherError ''401''))"
proof -
  have h1: "\<not> unwraps_to_EOF (OtherError ''reset'')" by simp
  have h2: "Update plain_toolkit plain_model (ErrMsg (OtherError ''reset''))
              = Inr (plain_model\<lparr>err := Some (OtherError ''reset'')\<rparr>, Nil, [])"
    by (simp add: Update_def)
  note a = schedule_failed_request
  have b: "exec plain_toolkit plain_start
          ([External (KeyMsg KeyEnter []), Submit, Network (Opened (Some (OtherError ''401'')))]
           @ [Internal 0]) = Some
        \<lparr>loop = Idle,
          mdl = \<lparr>goos = ''linux'', shell = ''bash'', width = 0, height = 0,
                  viewport = (''You: '' @ [CHR 0x0A] @ ''System: '', True),
                  textarea = ([], 300), err = Some (OtherError ''401''), inputMessage = Chan 0,
                  deltaMessage = Chan 1, messages = [''You: '', ''System: '']\<rparr>,
          requester = Returned (OtherError ''401''), req_in = Chan 0, req_out = Chan 1,
          waiters = [Chan 1], mailbox = [], quitting = False\<rparr>"
    using schedule_error_dispatched by (simp del: exec.simps)
  from requester_fatal [where v = "''hi''" and e = "OtherError ''reset''" and fcs = "[(''Hel'', [])]"
      and response = "StreamResponse []" and tk = plain_toolkit and m = plain_model
      and ev = "ErrMsg (OtherError ''reset'')" and c = Nil]
    h1 h2
  have 1: "requester_run AwaitInput
       ([Input ''hi'', Opened None] @ streamed [(''Hel'', [])]
          @ [Received (StreamResponse []) (Some (OtherError ''reset''))]) =
     Some (Returned (OtherError ''reset''),
           [Request (ChatCompletionRequest ''gpt-3.5-turbo'' [ChatCompletionMessage ''user'' ''hi'']),
            Fragment ''Hel'', Event (ErrMsg (OtherError ''reset''))])"
    by (simp add: GPT3Dot5Turbo_def ChatMessageRoleUser_def)
  from requester_fatal [where e = "OtherError ''401''" and tk = plain_toolkit]
    exec_last_step [OF a b]
  have 2: "requester s' = Returned (OtherError ''401'')"
    if "exec plain_toolkit plain_start
          ([External (KeyMsg KeyEnter []), Submit, Network (Opened (Some (OtherError ''401'')))]
           @ [Internal 0]) = Some s'" for s'
    using that b by simp
  show ?thesis using 1 2 a b by (simp del: exec.simps)
qed

text \<open>
  Claim C4. On an error message \<^verbatim>\<open>Update\<close> stores the error and returns at once, with
  no command: the transcript and the viewport are as before, so the response line keeps
  the fragments it had, and a run that ends with the error message has the transcript of
  the run without it.
\<close>

theorem error_recorded:
  "Update tk m (ErrMsg x) = Inr (m\<lparr>err := Some x\<rparr>, Nil, [])
   \<and> messages (m\<lparr>err := Some x\<rparr>) = messages m
   \<and> viewport (m\<lparr>err := Some x\<rparr>) = viewport m
   \<and> transcript_of tk m (es @ [ErrMsg x]) = transcript_of tk m es"
  by (auto simp: Update_def transcript_of_def run_append split: sum.splits prod.splits)

section \<open>Waiting for the next fragment\<close>

text \<open>
  Claim C5. The wait for a fragment is a command, not a read inside \<^verbatim>\<open>Update\<close>:
  handling a fragment writes and sends nothing and returns exactly one new wait on the
  fragment channel; no other message returns a wait. So at every moment of the program
  there is exactly one wait on the fragment channel or one fragment not yet dispatched,
  and an idle loop can take a key or a resize whether or not a fragment has arrived.
\<close>

theorem fragment_wait_rearmed:
  "(messages m \<noteq> [] \<longrightarrow>
      (\<exists>m' c. Update tk m (DeltaMsg d) = Inr (m', c, []) \<and> collect_waits c = [deltaMessage m]))
   \<and> (Update tk m e = Inr (m1, c1, out1) \<longrightarrow>
        collect_waits c1 = (if is_DeltaMsg e then [deltaMessage m] else []))
   \<and> (reachable tk (start tk sh os) s \<longrightarrow>
        length (waiters s) + length (deltas (mailbox s)) = 1 \<and> set (waiters s) \<subseteq> {req_out s})
   \<and> (alive s \<and> loop s = Idle \<and> \<not> is_DeltaMsg ev \<longrightarrow> sys_step tk s (dispatch tk s ev))"
proof -
  have a: "\<exists>m' c. Update tk m (DeltaMsg d) = Inr (m', c, []) \<and> collect_waits c = [deltaMessage m]"
    if ne: "messages m \<noteq> []"
  proof -
    from ne obtain m' c out where u: "Update tk m (DeltaMsg d) = Inr (m', c, out)"
      using Update_fault_iff [of tk m "DeltaMsg d"] by (cases "Update tk m (DeltaMsg d)") auto
    have "out = []" using u ne
      by (auto simp: Update_def Let_def delegate_def extend_last_def split: prod.splits)
    with u Update_waits [OF u] show ?thesis by simp
  qed
  have b: "collect_waits c1 = (if is_DeltaMsg e then [deltaMessage m] else [])"
    if "Update tk m e = Inr (m1, c1, out1)"
    using Update_waits [OF that] .
  have c: "length (waiters s) + length (deltas (mailbox s)) = 1 \<and> set (waiters s) \<subseteq> {req_out s}"
    if "reachable tk (start tk sh os) s"
    using sound_reachable [OF that] by (simp add: sound_def)
  have d: "sys_step tk s (dispatch tk s ev)" if "alive s" "loop s = Idle" "\<not> is_DeltaMsg ev"
    using that by (simp add: sys_step_def move.external)
  from a b c d show ?thesis by blast
qed

theorem fragment_wait_rearmed_witness:
  "(\<exists>m' c. Update plain_toolkit (plain_model\<lparr>messages := [''You: '', ''System: '']\<rparr>) (DeltaMsg ''Hel'')
              = Inr (m', c, [])
          \<and> collect_waits c = [Chan 1])
   \<and> (\<exists>m1 c1 out1. Update plain_toolkit (plain_model\<lparr>messages := [''You: '', ''System: '']\<rparr>)
                       (KeyMsg KeyRunes ''a'') = Inr (m1, c1, out1)
          \<and> collect_waits c1 = [])
   \<and> (\<exists>s. exec plain_toolkit plain_start
              [External (KeyMsg KeyEnter []), Submit, Network (Opened None),
               Network (chunk (''Hel'', [])), Deliver 0] = Some s
          \<and> length (waiters s) + length (deltas (mailbox s)) = 1
          \<and> alive s \<and> loop s = Idle
          \<and> sys_step plain_toolkit s (dispatch plain_toolkit s (KeyMsg KeyRunes ''a'')))"
proof -
  let ?m = "plain_model\<lparr>messages := [''You: '', ''System: '']\<rparr>"
  note e = schedule_fragment_in_flight
  have h1: "messages ?m \<noteq> []" by simp
  have h2: "\<exists>m1 c1 out1. Update plain_toolkit ?m (KeyMsg KeyRunes ''a'') = Inr (m1, c1, out1)"
    by (simp add: Update_def delegate_def Let_def split: prod.splits)
  then obtain m1 c1 out1 where u: "Update plain_toolkit ?m (KeyMsg KeyRunes ''a'') = Inr (m1, c1, out1)"
    by blast
  have dm: "deltaMessage ?m = Chan 1" by (simp add: plain_model_def initialModel_def)
  from fragment_wait_rearmed [where tk = plain_toolkit and m = ?m and d = "''Hel''"
      and e = "KeyMsg KeyRunes ''a''" and ev = "KeyMsg KeyRunes ''a''"
      and ?m1.0 = m1 and ?c1.0 = c1 and ?out1.0 = out1 and sh = "''/bin/bash''" and os = "''linux''"
      and s = "the (exec plain_toolkit plain_start
              [External (KeyMsg KeyEnter []), Submit, Network (Opened None),
               Network (chunk (''Hel'', [])), Deliver 0])"]
    h1 u dm plain_reachable [OF e]
  show ?thesis
    by (simp add: e alive_def del: exec.simps)
qed

section \<open>Quit\<close>



section \<open>Submitting an empty input\<close>

text \<open>
  Claim C7. With nothing typed, Enter still appends a user line (the label "You: " with
  empty text) and the placeholder line, and sends the empty text to the request loop,
  which issues one request with empty content. Of the two policies the second is the
  one implemented: the transcript does change.
\<close>

theorem empty_submission:
  assumes "ta_Value tk (textarea m) = []"
  shows "\<exists>m' c. Update tk m (KeyMsg KeyEnter r) = Inr (m', c, [ChanSend (inputMessage m) []])
           \<and> messages m' = messages m @ [Render tk ''You: '' @ [], Render tk ''System: '']
           \<and> messages m' \<noteq> messages m
           \<and> requester_run AwaitInput [Input []] =
               Some (CreateStream (ChatCompletionRequest GPT3Dot5Turbo
                                     [ChatCompletionMessage ChatMessageRoleUser []]),
                     [Request (ChatCompletionRequest GPT3Dot5Turbo
                                 [ChatCompletionMessage ChatMessageRoleUser []])])"
  using Update_Enter [of tk m r] assms by (auto simp: Let_def)

theorem empty_submission_witness:
  "ta_Value plain_toolkit (textarea plain_model) = []
   \<and> (\<exists>m' c. Update plain_toolkit plain_model (KeyMsg KeyEnter []) = Inr (m', c, [ChanSend (Chan 0) []])
         \<and> messages m' = [''You: '', ''System: ''])"
proof -
  have h: "ta_Value plain_toolkit (textarea plain_model) = []"
    by (simp add: plain_toolkit_def plain_model_def initialModel_def)
  have "inputMessage plain_model = Chan 0" "messages plain_model = []"
    "Render plain_toolkit ''You: '' = ''You: ''" "Render plain_toolkit ''System: '' = ''System: ''"
    by (simp_all add: plain_toolkit_def plain_model_def initialModel_def)
  with empty_submission [OF h, of "[]"] h show ?thesis by auto
qed

section \<open>Resizing the window\<close>

text \<open>
  Claim C8. On a resize message \<^verbatim>\<open>Update\<close> stores the new width and height, calls
  \<^verbatim>\<open>SetWidth\<close> of the text area with the new width, and leaves the transcript as it
  was. It calls nothing on the viewport but the viewport's own \<^verbatim>\<open>Update\<close>, and
  writes and sends nothing: with widgets that ignore resize messages, the text area is
  the old one at the new width and the viewport, its scroll position included, is
  unchanged.
\<close>

theorem resize_frame:
  "\<exists>m' c. Update tk m (WindowSizeMsg w h) = Inr (m', c, [])
      \<and> width m' = w \<and> height m' = h
      \<and> textarea m' = fst (ta_Update tk (WindowSizeMsg w h) (ta_SetWidth tk w (textarea m)))
      \<and> viewport m' = fst (vp_Update tk (WindowSizeMsg w h) (viewport m))
      \<and> messages m' = messages m
      \<and> ((\<forall>ta. fst (ta_Update tk (WindowSizeMsg w h) ta) = ta) \<longrightarrow> textarea m' = ta_SetWidth tk w (textarea m))
      \<and> ((\<forall>vp. fst (vp_Update tk (WindowSizeMsg w h) vp) = vp) \<longrightarrow> viewport m' = viewport m)"
  by (simp add: Update_def delegate_def Let_def case_prod_beta)

theorem resize_frame_witness:
  "(\<forall>ta. fst (ta_Update plain_toolkit (WindowSizeMsg 80 24) ta) = ta)
   \<and> (\<forall>vp. fst (vp_Update plain_toolkit (WindowSizeMsg 80 24) vp) = vp)
   \<and> (\<exists>m' c. Update plain_toolkit plain_model (WindowSizeMsg 80 24) = Inr (m', c, [])
         \<and> width m' = 80 \<and> height m' = 24 \<and> textarea m' = ([], 80)
         \<and> viewport m' = viewport plain_model \<and> messages m' = messages plain_model)"
proof -
  have h1: "\<forall>ta. fst (ta_Update plain_toolkit (WindowSizeMsg 80 24) ta) = ta"
    by (simp add: plain_toolkit_def)
  have h2: "\<forall>vp. fst (vp_Update plain_toolkit (WindowSizeMsg 80 24) vp) = vp"
    by (simp add: plain_toolkit_def)
  have t: "ta_SetWidth plain_toolkit 80 (textarea plain_model) = ([], 80)"
    by (simp add: plain_toolkit_def plain_model_def initialModel_def)
  from resize_frame [of plain_toolkit plain_model 80 24] h1 h2 t show ?thesis by auto
qed

section \<open>Submitting while a response is streaming\<close>

text \<open>
  Claim C9. While the loop is inside the send of the Enter branch, every move of the
  program is one of two kinds. If the request loop is not at its receive (it is opening
  or reading the stream, or sending a fragment), the loop stays blocked, the model is
  the same, and no message is taken from the mailbox: none is dispatched. If the request
  loop is at its receive, the move is the hand-over of the submitted text, after which
  \<^verbatim>\<open>Update\<close> returns.
\<close>

theorem blocked_send:
  assumes "sys_step tk s s'" and "loop s = Blocked ch v m' c"
  shows "(requester s \<noteq> AwaitInput \<longrightarrow>
            loop s' = Blocked ch v m' c \<and> mdl s' = mdl s \<and> (\<exists>new. mailbox s' = mailbox s @ new))
       \<and> (requester s = AwaitInput \<longrightarrow>
            ch = req_in s
            \<and> requester s' = CreateStream (ChatCompletionRequest GPT3Dot5Turbo
                                            [ChatCompletionMessage ChatMessageRoleUser v])
            \<and> loop s' = Idle \<and> mdl s' = m' \<and> mailbox s' = mailbox s)"
proof -
  from assms(1) have "move tk s s'" by (simp add: sys_step_def)
  then show ?thesis using assms(2)
  proof (induction rule: move.induct)
    case (submit s ch' v' m'' c' r out)
    from requester_step_Input [OF submit(3)] submit show ?case by (simp add: finish_def)
  next
    case (network st x response s r out)
    from requester_step_network(1) [OF network(2,1)] network show ?case by simp
  next
    case (deliver s xs ys r out)
    from requester_step_Taken [OF deliver(2)] deliver show ?case by auto
  qed simp_all
qed

theorem blocked_send_witness:
  "(\<exists>s s' ch v m' c.
      exec plain_toolkit plain_start
        [External (KeyMsg KeyEnter []), Submit, Network (Opened None),
         Network (chunk (''Hel'', [])), Deliver 0, External (KeyMsg KeyEnter [])] = Some s
      \<and> exec plain_toolkit plain_start
          ([External (KeyMsg KeyEnter []), Submit, Network (Opened None),
            Network (chunk (''Hel'', [])), Deliver 0, External (KeyMsg KeyEnter [])]
           @ [Network (chunk (''lo'', []))]) = Some s'
      \<and> loop s = Blocked ch v m' c \<and> requester s \<noteq> AwaitInput
      \<and> loop s' = Blocked ch v m' c \<and> mdl s' = mdl s)
   \<and> (\<exists>s s' ch v m' c.
      exec plain_toolkit plain_start [External (KeyMsg KeyEnter [])] = Some s
      \<and> exec plain_toolkit plain_start ([External (KeyMsg KeyEnter [])] @ [Submit]) = Some s'
      \<and> loop s = Blocked ch v m' c \<and> requester s = AwaitInput
      \<and> loop s' = Idle \<and> mdl s' = m')"
proof -
  note a = schedule_second_submission
  have b: "exec plain_toolkit plain_start
          ([External (KeyMsg KeyEnter []), Submit, Network (Opened None),
            Network (chunk (''Hel'', [])), Deliver 0, External (KeyMsg KeyEnter [])]
           @ [Network (chunk (''lo'', []))]) = Some
         \<lparr>loop = Blocked (Chan 0) []
                  \<lparr>goos = ''linux'', shell = ''bash'', width = 0, height = 0,
                    viewport = (''You: '' @ [CHR 0x0A] @ ''System: '' @ [CHR 0x0A] @ ''You: '' @ [CHR 0x0A] @ ''System: '', True),
                    textarea = ([], 300), err = None, inputMessage = Chan 0,
                    deltaMessage = Chan 1,
                    messages = [''You: '', ''System: '', ''You: '', ''System: '']\<rparr>
                  (Batch [Nil, Nil]),
          mdl = \<lparr>goos = ''linux'', shell = ''bash'', width = 0, height = 0,
                  viewport = (''You: '' @ [CHR 0x0A] @ ''System: '', True),
                  textarea = ([], 300), err = None, inputMessage = Chan 0,
                  deltaMessage = Chan 1, messages = [''You: '', ''System: '']\<rparr>,
          requester = SendDelta ''lo'', req_in = Chan 0, req_out = Chan 1, waiters = [],
          mailbox = [DeltaMsg ''Hel''], quitting = False\<rparr>"
    using schedule_submission_while_streaming by (simp del: exec.simps)
  note c = schedule_first_submission
  have d: "exec plain_toolkit plain_start ([External (KeyMsg KeyEnter [])] @ [Submit]) = Some
        \<lparr>loop = Idle,
          mdl = \<lparr>goos = ''linux'', shell = ''bash'', width = 0, height = 0,
                  viewport = (''You: '' @ [CHR 0x0A] @ ''System: '', True),
                  textarea = ([], 300), err = None, inputMessage = Chan 0,
                  deltaMessage = Chan 1, messages = [''You: '', ''System: '']\<rparr>,
          requester = CreateStream (ChatCompletionRequest ''gpt-3.5-turbo''
                                      [ChatCompletionMessage ''user'' []]),
          req_in = Chan 0, req_out = Chan 1, waiters = [Chan 1],
          mailbox = [], quitting = False\<rparr>"
    using schedule_first_exchange by (simp del: exec.simps)
  show ?thesis
    using blocked_send [OF exec_last_step [OF a b]] blocked_send [OF exec_last_step [OF c d]]
    by (simp add: a c schedule_submission_while_streaming schedule_first_exchange del: exec.simps)
qed

section \<open>The last line exists when a fragment arrives\<close>

text \<open>
  Claim C10. The transcript starts empty, and a fragment handled then would panic on the
  index of the last line. In every state the program can reach, the loop has not
  panicked; whenever a fragment is waiting to be dispatched, or the request loop has
  left its first receive, the transcript is not empty, so handling the fragment does not
  panic.
\<close>

theorem fragment_never_faults:
  assumes "reachable tk (start tk sh os) s"
  shows "(\<forall>f. loop s \<noteq> Crashed f)
     \<and> (\<forall>d. DeltaMsg d \<in> set (mailbox s) \<longrightarrow>
           messages (mdl s) \<noteq> [] \<and> (\<exists>m' c out. Update tk (mdl s) (DeltaMsg d) = Inr (m', c, out)))
     \<and> (requester s \<noteq> AwaitInput \<longrightarrow> messages (mdl s) \<noteq> [])
     \<and> messages (mdl (start tk sh os)) = []
     \<and> Update tk (mdl (start tk sh os)) (DeltaMsg d0) = Inl IndexOutOfRange"
proof -
  from sound_reachable [OF assms] have s: "sound s" .
  have a: "\<forall>f. loop s \<noteq> Crashed f" using s by (auto simp: sound_def)
  have b: "messages (mdl s) \<noteq> []" if "DeltaMsg d \<in> set (mailbox s)" for d
  proof -
    from that obtain xs ys where "mailbox s = xs @ DeltaMsg d # ys" by (auto simp: in_set_conv_decomp)
    then have "deltas (mailbox s) \<noteq> []" by (simp add: deltas_split)
    with s show ?thesis by (auto simp: sound_def)
  qed
  have c: "\<exists>m' c out. Update tk (mdl s) (DeltaMsg d) = Inr (m', c, out)"
    if "DeltaMsg d \<in> set (mailbox s)" for d
    using b [OF that] Update_fault_iff [of tk "mdl s" "DeltaMsg d"]
    by (cases "Update tk (mdl s) (DeltaMsg d)") auto
  have d: "requester s \<noteq> AwaitInput \<longrightarrow> messages (mdl s) \<noteq> []"
    using s by (auto simp: sound_def)
  have e: "messages (mdl (start tk sh os)) = []"
    by (simp add: start_def Let_def initialModel_def)
  have f: "Update tk (mdl (start tk sh os)) (DeltaMsg d0) = Inl IndexOutOfRange"
    using e Update_fault_iff [of tk "mdl (start tk sh os)" "DeltaMsg d0" IndexOutOfRange] by simp
  from a b c d e f show ?thesis by blast
qed

theorem fragment_never_faults_witness:
  "\<exists>s. exec plain_toolkit plain_start
          [External (KeyMsg KeyEnter []), Submit, Network (Opened None),
           Network (chunk (''Hel'', [])), Deliver 0] = Some s
      \<and> DeltaMsg ''Hel'' \<in> set (mailbox s)
      \<and> requester s \<noteq> AwaitInput
      \<and> messages (mdl s) \<noteq> []
      \<and> (\<exists>m' c out. Update plain_toolkit (mdl s) (DeltaMsg ''Hel'') = Inr (m', c, out))"
proof -
  note e = schedule_fragment_in_flight
  from fragment_never_faults [OF plain_reachable [OF e]] show ?thesis
    by (simp add: e del: exec.simps)
qed
end
